theory Spec2Isabelle
  imports Main "HOL-Library.Sublist" "HOL-Library.AList" "HOL-Library.Multiset"
begin

section \<open>Python string operations used by the server\<close>

text \<open>
  A Python \<open>str\<close> is a sequence of code points. The model works on strings whose code
  points are below 256 (the Latin-1 block): a \<^typ>\<open>char\<close> is one code point, and the
  string methods below are Python's, restricted to that block.
\<close>

definition in_ranges :: "nat \<Rightarrow> (nat \<times> nat) list \<Rightarrow> bool" where
  "in_ranges n rs = list_ex (\<lambda>(lo, hi). lo \<le> n \<and> n \<le> hi) rs"

text \<open>\<open>str.isspace\<close> on one code point.\<close>

definition isspace :: "char \<Rightarrow> bool" where
  "isspace c = in_ranges (of_char c) [(9, 13), (28, 32), (133, 133), (160, 160)]"

text \<open>\<open>str.isalnum\<close> on one code point.\<close>

definition isalnum :: "char \<Rightarrow> bool" where
  "isalnum c = in_ranges (of_char c)
     [(48, 57), (65, 90), (97, 122), (170, 170), (178, 179), (181, 181), (185, 186),
      (188, 190), (192, 214), (216, 246), (248, 255)]"

definition isdigit :: "char \<Rightarrow> bool" where
  "isdigit c = in_ranges (of_char c) [(48, 57)]"

text \<open>\<open>str.lower\<close>: the upper-case letters of the block are 32 below their lower case.\<close>

definition lower_chr :: "char \<Rightarrow> char" where
  "lower_chr c =
     (if in_ranges (of_char c) [(65, 90), (192, 214), (216, 222)]
      then char_of (of_char c + (32 :: nat)) else c)"

definition str_lower :: "string \<Rightarrow> string" where
  "str_lower s = map lower_chr s"

text \<open>\<open>s.startswith(p)\<close> and the substring test \<open>p in s\<close>.\<close>

fun startswith :: "string \<Rightarrow> string \<Rightarrow> bool" where
  "startswith s [] = True"
| "startswith [] (p # ps) = False"
| "startswith (c # cs) (p # ps) = (c = p \<and> startswith cs ps)"

fun str_in :: "string \<Rightarrow> string \<Rightarrow> bool" where
  "str_in p [] = (p = [])"
| "str_in p (c # cs) = (startswith (c # cs) p \<or> str_in p cs)"

text \<open>
  \<open>s.split()\<close> with no separator: the maximal runs of characters that are not
  whitespace. \<open>cur\<close> is the run being read.
\<close>

fun split_from :: "string \<Rightarrow> string \<Rightarrow> string list" where
  "split_from cur [] = (if cur = [] then [] else [cur])"
| "split_from cur (c # cs) =
     (if isspace c then (if cur = [] then split_from [] cs else cur # split_from [] cs)
      else split_from (cur @ [c]) cs)"

definition str_split :: "string \<Rightarrow> string list" where
  "str_split s = split_from [] s"

text \<open>\<open>s.strip()\<close>.\<close>

definition str_strip :: "string \<Rightarrow> string" where
  "str_strip s = rev (dropWhile isspace (rev (dropWhile isspace s)))"

text \<open>
  \<open>s.splitlines()\<close>: a line ends at a line feed, a carriage return (with a following
  line feed taken into the same break), a vertical tab, a form feed, one of the separators
  28 to 30, or the next-line character 133; the breaks are dropped and no empty last line
  is produced.
\<close>

definition islinebreak :: "char \<Rightarrow> bool" where
  "islinebreak c = in_ranges (of_char c) [(10, 13), (28, 30), (133, 133)]"

fun splitlines_from :: "string \<Rightarrow> string \<Rightarrow> string list" where
  "splitlines_from cur [] = (if cur = [] then [] else [cur])"
| "splitlines_from cur [c] =
     (if islinebreak c then [cur] else [cur @ [c]])"
| "splitlines_from cur (c # d # cs) =
     (if of_char c = (13 :: nat) \<and> of_char d = (10 :: nat) then cur # splitlines_from [] cs
      else if islinebreak c then cur # splitlines_from [] (d # cs)
      else splitlines_from (cur @ [c]) (d # cs))"

definition str_splitlines :: "string \<Rightarrow> string list" where
  "str_splitlines s = splitlines_from [] s"

text \<open>\<open>sep.join(xs)\<close>.\<close>

fun str_join :: "string \<Rightarrow> string list \<Rightarrow> string" where
  "str_join sep [] = []"
| "str_join sep [x] = x"
| "str_join sep (x # y # ys) = x @ sep @ str_join sep (y # ys)"

text \<open>
  The slice \<open>xs[:n]\<close> for a literal \<open>n \<ge> 0\<close> is \<^term>\<open>take n xs\<close>. The slice
  \<open>xs[i:]\<close> for any integer \<open>i\<close>: a negative start counts from the end, and the start is
  clamped to the list.
\<close>

definition slice_from :: "int \<Rightarrow> 'a list \<Rightarrow> 'a list" where
  "slice_from i xs =
     (let n = int (length xs);
          j = (if i < 0 then max 0 (n + i) else min i n)
      in drop (nat j) xs)"

text \<open>\<open>str(n)\<close> for an integer: decimal digits, with a minus sign when negative.\<close>

fun str_nat :: "nat \<Rightarrow> string" where
  "str_nat n = (if n < 10 then [char_of (48 + n)] else str_nat (n div 10) @ [char_of (48 + n mod 10)])"

declare str_nat.simps [simp del]

definition str_int :: "int \<Rightarrow> string" where
  "str_int i = (if i < 0 then CHR ''-'' # str_nat (nat (- i)) else str_nat (nat i))"

text \<open>
  \<open>int(s)\<close> in base 10: surrounding whitespace is ignored, a sign may come first, the
  digits may be grouped by single underscores, anything else raises \<open>ValueError\<close>
  (\<^term>\<open>None\<close>). The interpreter also raises \<open>ValueError\<close> when the literal has more
  digits than its limit \<open>maxd\<close>, where 0 means no limit.
\<close>

fun int_digits :: "bool \<Rightarrow> nat \<Rightarrow> string \<Rightarrow> nat option" where
  "int_digits prev acc [] = (if prev then Some acc else None)"
| "int_digits prev acc (c # cs) =
     (if isdigit c then int_digits True (10 * acc + (of_char c - 48)) cs
      else if c = CHR ''_'' \<and> prev then int_digits False acc cs
      else None)"

definition int_unsigned :: "nat \<Rightarrow> string \<Rightarrow> nat option" where
  "int_unsigned maxd ds =
     (if 0 < maxd \<and> maxd < length (filter isdigit ds) then None
      else int_digits False 0 ds)"

definition py_int :: "nat \<Rightarrow> string \<Rightarrow> int option" where
  "py_int maxd s =
     (case str_strip s of
        [] \<Rightarrow> None
      | c # cs \<Rightarrow>
          if c = CHR ''-'' then map_option (\<lambda>n. - int n) (int_unsigned maxd cs)
          else if c = CHR ''+'' then map_option int (int_unsigned maxd cs)
          else map_option int (int_unsigned maxd (c # cs)))"

section \<open>Classifier\<close>

datatype category = Test | Build | Long | Complex | Quick

definition test_patterns :: "string list" where
  "test_patterns = [''test'', ''junit'', ''pytest'', ''jest'', ''mocha'', ''rspec'']"

definition build_patterns :: "string list" where
  "build_patterns = [''build'', ''compile'', ''make'', ''gradle'', ''maven'', ''npm run build'']"

definition long_patterns :: "string list" where
  "long_patterns = [''install'', ''download'', ''sync'', ''clone'', ''pull'', ''push'']"

text \<open>\<open>any(pattern in cmd_lower for pattern in patterns)\<close>.\<close>

definition any_in :: "string list \<Rightarrow> string \<Rightarrow> bool" where
  "any_in patterns s = list_ex (\<lambda>pattern. str_in pattern s) patterns"

definition classify_command :: "string \<Rightarrow> category" where
  "classify_command command =
     (let cmd_lower = str_lower command in
      if any_in test_patterns cmd_lower then Test
      else if any_in build_patterns cmd_lower then Build
      else if any_in long_patterns cmd_lower then Long
      else if length (str_split command) > 5 then Complex
      else Quick)"

section \<open>Files, processes and the environment\<close>

text \<open>
  Exceptions are values. \<open>str(e)\<close> is the message carried.
\<close>

datatype exn = OSError string | ValueError string | OverflowError string

fun str_exn :: "exn \<Rightarrow> string" where
  "str_exn (OSError m) = m"
| "str_exn (ValueError m) = m"
| "str_exn (OverflowError m) = m"

text \<open>
  The output directory is an association list from file name to file, in the order in
  which the directory is listed. A path is the name of a file in that directory. A file
  has the characters stored in it, its modification time, and the exception that opening
  or reading it raises, if any (no permission, bytes that do not decode). The trace lists
  what a call has done to files and processes, in order.
\<close>

type_synonym path = string

record disk_file =
  content :: string
  mtime :: nat
  read_error :: "exn option"

datatype event =
    WriteFile path
  | AppendFile path
  | SpawnShell string string
  | Kill
  | Wait

record world =
  files :: "(path \<times> disk_file) list"
  trace :: "event list"

text \<open>
  The outcome of one \<open>with output_file.open(...) as f\<close> block with its \<open>f.write\<close>
  calls. The block writes all of its text; or \<open>open\<close> raises and the file is as it was;
  or the file is opened, a leading part of the text (its first \<open>n\<close> characters) reaches
  the file, and an exception is raised by a write or by the flush at the end.
\<close>

datatype io = Written | OpenRaises exn | WriteRaises exn nat

text \<open>
  The process of a bounded invocation, seen from the call:
  \<^item> \<open>exit_code\<close>: the return code, when the process has exited by the deadline;
  \<^item> \<open>piped\<close>: the decoded output, when the output stream has reached its end by the
    deadline (a descendant of the shell that is still running keeps the stream open);
  \<^item> \<open>reaped\<close>: whether \<open>process.wait()\<close> after \<open>process.kill()\<close> returns; it waits
    until the output stream is closed as well, which a surviving descendant may never do.
  \<open>process.communicate()\<close> returns when the stream has ended and the process has
  exited; \<open>wait_for\<close> raises \<open>TimeoutError\<close> when that has not happened by the
  deadline.
\<close>

record proc =
  exit_code :: "int option"
  piped :: "string option"
  reaped :: bool

definition communicate :: "proc \<Rightarrow> (string \<times> int) option" where
  "communicate p =
     (case piped p of
        None \<Rightarrow> None
      | Some output \<Rightarrow> (case exit_code p of None \<Rightarrow> None | Some rc \<Rightarrow> Some (output, rc)))"

text \<open>
  The launch of a background invocation: \<open>create_subprocess_shell\<close> raises; or the
  launching shell ends and \<open>communicate()\<close> returns its decoded standard output (the text
  printed by \<open>echo $!\<close>); or the shell does not end (a part of the command line runs in
  its foreground) and \<open>communicate()\<close> does not return.
\<close>

datatype launch = LaunchRaises exn | LaunchPrinted string | LaunchHangs

datatype kill_result = Signalled | KillRaises exn

text \<open>What the operating system answers during one call.\<close>

record env =
  getcwd :: "exn + string"
  time_int :: nat
  ctime_start :: string
  ctime_end :: string
  max_str_digits :: nat
  write_header :: io
  spawn :: "exn + proc"
  write_footer :: io
  bg_spawn :: launch
  bg_log :: "disk_file option"
  write_pid :: io
  os_kill :: "int \<Rightarrow> kill_result"

text \<open>
  \<^item> \<open>getcwd\<close>: \<open>os.getcwd()\<close> raises (the server's own directory is gone) or returns.
  \<^item> \<open>time_int\<close> is \<open>int(time.time())\<close>; it also stamps the files written in the call.
  \<^item> \<open>ctime_start\<close>, \<open>ctime_end\<close> are \<open>time.ctime()\<close> at the header and at the footer.
  \<^item> \<open>write_header\<close>, \<open>write_footer\<close>, \<open>write_pid\<close>: the outcomes of the three writes.
  \<^item> \<open>spawn\<close>: \<open>create_subprocess_shell\<close> of the bounded executor raises, or the shell
    starts. A shell that starts and cannot find or execute the command is a process that
    exits with code 127 or 126.
  \<^item> \<open>bg_spawn\<close>: the launch of the background shell.
  \<^item> \<open>bg_log\<close>: the file that the shell's redirection has left at the log path when the
    grace period of one second is over; \<^term>\<open>None\<close> when the shell has not created it.
  \<^item> \<open>os_kill\<close>: the outcome of \<open>os.kill(pid, 0)\<close>.
  \<^item> \<open>max_str_digits\<close>: the interpreter's limit on the digits of an integer literal.

  Calls run one at a time on a POSIX system: the directory does not change between the
  listing and the reads of one call, text is written as it is, and \<open>process.kill()\<close>
  returns normally.
\<close>

definition open_w :: "path \<Rightarrow> string \<Rightarrow> nat \<Rightarrow> world \<Rightarrow> world" where
  "open_w p text stamp w =
     w\<lparr>files := AList.update p
          \<lparr>content = text, mtime = stamp,
           read_error = (case map_of (files w) p of None \<Rightarrow> None | Some f \<Rightarrow> read_error f)\<rparr>
          (files w),
       trace := trace w @ [WriteFile p]\<rparr>"

definition open_a :: "path \<Rightarrow> string \<Rightarrow> nat \<Rightarrow> world \<Rightarrow> world" where
  "open_a p text stamp w =
     w\<lparr>files := AList.update p
          (case map_of (files w) p of
             None \<Rightarrow> \<lparr>content = text, mtime = stamp, read_error = None\<rparr>
           | Some f \<Rightarrow> f\<lparr>content := content f @ text, mtime := stamp\<rparr>)
          (files w),
       trace := trace w @ [AppendFile p]\<rparr>"

text \<open>
  A \<open>with\<close> block in mode \<open>"w"\<close> or \<open>"a"\<close> under a given outcome: the exception
  raised, if any, and the world it leaves.
\<close>

definition write_block :: "io \<Rightarrow> path \<Rightarrow> string \<Rightarrow> nat \<Rightarrow> world \<Rightarrow> exn option \<times> world" where
  "write_block r p text stamp w =
     (case r of
        Written \<Rightarrow> (None, open_w p text stamp w)
      | OpenRaises e \<Rightarrow> (Some e, w)
      | WriteRaises e n \<Rightarrow> (Some e, open_w p (take n text) stamp w))"

definition append_block :: "io \<Rightarrow> path \<Rightarrow> string \<Rightarrow> nat \<Rightarrow> world \<Rightarrow> exn option \<times> world" where
  "append_block r p text stamp w =
     (case r of
        Written \<Rightarrow> (None, open_a p text stamp w)
      | OpenRaises e \<Rightarrow> (Some e, w)
      | WriteRaises e n \<Rightarrow> (Some e, open_a p (take n text) stamp w))"

definition emit :: "event list \<Rightarrow> world \<Rightarrow> world" where
  "emit es w = w\<lparr>trace := trace w @ es\<rparr>"

text \<open>
  Reading a file in text mode: a carriage return, alone or followed by a line feed,
  is read as one line feed.
\<close>

fun read_text :: "string \<Rightarrow> string" where
  "read_text [] = []"
| "read_text [c] = (if of_char c = (13 :: nat) then ''\<newline>'' else [c])"
| "read_text (c # d # cs) =
     (if of_char c = (13 :: nat)
      then (if of_char d = (10 :: nat) then CHR 0x0A # read_text cs
            else CHR 0x0A # read_text (d # cs))
      else c # read_text (d # cs))"

section \<open>Bounded executor\<close>

text \<open>
  The reports are the texts the server returns, with the fixed wording as the
  constructor and the interpolated values as its arguments:
  \<^item> \<open>CompletedOk rc excerpt pointer\<close>: "Command completed successfully", the exit code,
    \<open>output[:2000]\<close>, and the "truncated, full output in" line with the log path;
  \<^item> \<open>TimedOut timeout log\<close>: "Command timed out after ...s and was terminated ... use
    force_background=true ... Log:";
  \<^item> \<open>ExecError msg\<close>: "Error executing command:";
  \<^item> \<open>BgStarted pid log initial\<close>: "Command started in background", with the
    "Initial Output" block when there is one;
  \<^item> \<open>BgError msg\<close>: "Error starting background command:".
  An executor returns its report, or does not return at all: \<^term>\<open>None\<close>. The world
  is the one it has left in either case.
\<close>

datatype report =
    CompletedOk int string "path option"
  | TimedOut int path
  | ExecError string
  | BgStarted string path "string option"
  | BgError string

definition rule40 :: string where
  "rule40 = replicate 40 CHR ''=''"

text \<open>
  The pictograph that opens the timeout marker (an alarm clock, U+23F0) lies outside the
  block of code points modelled; it is written as the tag below.
\<close>

definition alarm_clock :: string where
  "alarm_clock = ''<U+23F0>''"

definition log_header :: "env \<Rightarrow> string \<Rightarrow> string \<Rightarrow> int \<Rightarrow> string" where
  "log_header env command cwd timeout =
     ''=== AI-Safe Execution ===\<newline>'' @
     ''Command: '' @ command @ ''\<newline>'' @
     ''CWD: '' @ cwd @ ''\<newline>'' @
     ''Timeout: '' @ str_int timeout @ ''s\<newline>'' @
     ''Started: '' @ ctime_start env @ ''\<newline>'' @
     rule40 @ ''\<newline>''"

definition log_summary :: "env \<Rightarrow> string \<Rightarrow> int \<Rightarrow> string" where
  "log_summary env output returncode =
     output @
     ''\<newline>'' @ rule40 @ ''\<newline>'' @
     ''Exit Code: '' @ str_int returncode @ ''\<newline>'' @
     ''Completed: '' @ ctime_end env @ ''\<newline>''"

definition log_timeout :: "env \<Rightarrow> int \<Rightarrow> string" where
  "log_timeout env timeout =
     ''\<newline>'' @ alarm_clock @ '' TIMEOUT: Command terminated\<newline>'' @
     ''Timeout: '' @ str_int timeout @ ''s\<newline>'' @
     ''Terminated: '' @ ctime_end env @ ''\<newline>''"

definition execute_with_timeout ::
  "env \<Rightarrow> string \<Rightarrow> string \<Rightarrow> int \<Rightarrow> world \<Rightarrow> report option \<times> world" where
  "execute_with_timeout env command cwd timeout w =
     (let timestamp = time_int env;
          output_file = ''safe_'' @ str_nat timestamp @ ''.log''
      in case write_block (write_header env) output_file
                (log_header env command cwd timeout) timestamp w of
           (Some e, w1) \<Rightarrow> (Some (ExecError (str_exn e)), w1)
         | (None, w1) \<Rightarrow>
             (case spawn env of
                Inl e \<Rightarrow> (Some (ExecError (str_exn e)), w1)
              | Inr process \<Rightarrow>
                  let w2 = emit [SpawnShell command cwd] w1 in
                  (case communicate process of
                     Some (output, returncode) \<Rightarrow>
                       (case append_block (write_footer env) output_file
                               (log_summary env output returncode) timestamp w2 of
                          (Some e, w3) \<Rightarrow> (Some (ExecError (str_exn e)), w3)
                        | (None, w3) \<Rightarrow>
                            (Some (CompletedOk returncode (take 2000 output)
                                     (if length output > 2000 then Some output_file else None)),
                             w3))
                   | None \<Rightarrow>
                       let w3 = emit [Kill] w2 in
                       if \<not> reaped process then (None, w3)
                       else
                         (case append_block (write_footer env) output_file
                                 (log_timeout env timeout) timestamp (emit [Wait] w3) of
                            (Some e, w4) \<Rightarrow> (Some (ExecError (str_exn e)), w4)
                          | (None, w4) \<Rightarrow> (Some (TimedOut timeout output_file), w4)))))"

section \<open>Background launcher\<close>

text \<open>
  The launched shell creates the log by its redirection; the launcher writes the marker
  and reads the log once.
\<close>

definition execute_background ::
  "env \<Rightarrow> string \<Rightarrow> string \<Rightarrow> world \<Rightarrow> report option \<times> world" where
  "execute_background env command cwd w =
     (let timestamp = time_int env;
          safe_name = filter (\<lambda>c. isalnum c \<or> c = CHR ''_'' \<or> c = CHR ''-'') (take 20 command);
          output_file = ''bg_'' @ str_nat timestamp @ ''_'' @ safe_name @ ''.log'';
          pid_file = ''bg_'' @ str_nat timestamp @ ''_'' @ safe_name @ ''.pid'';
          w1 = emit [SpawnShell (command @ '' > '' @ output_file @ '' 2>&1 & echo $!'') cwd]
                 (w\<lparr>files := (case bg_log env of
                                None \<Rightarrow> files w
                              | Some f \<Rightarrow> AList.update output_file f (files w))\<rparr>)
      in case bg_spawn env of
           LaunchRaises e \<Rightarrow> (Some (BgError (str_exn e)), w)
         | LaunchHangs \<Rightarrow> (None, w1)
         | LaunchPrinted stdout \<Rightarrow>
             let pid = str_strip stdout in
             (case write_block (write_pid env) pid_file pid timestamp w1 of
                (Some e, w2) \<Rightarrow> (Some (BgError (str_exn e)), w2)
              | (None, w2) \<Rightarrow>
                  (case map_of (files w2) output_file of
                     None \<Rightarrow> (Some (BgStarted pid output_file None), w2)
                   | Some f \<Rightarrow>
                       (case read_error f of
                          Some e \<Rightarrow> (Some (BgError (str_exn e)), w2)
                        | None \<Rightarrow>
                            let initial = take 500 (read_text (content f)) in
                            (Some (BgStarted pid output_file
                                     (if str_strip initial \<noteq> [] then Some initial else None)),
                             w2)))))"

section \<open>Routing\<close>

text \<open>
  The argument dictionary of \<open>run_command_safe\<close>. \<open>os.getcwd()\<close> is the default of
  \<open>args.get("cwd", ...)\<close> and is evaluated on every call, before the routing decision
  and outside any handler.
\<close>

record args =
  command :: string
  cwd :: "string option"
  force_background :: "bool option"
  timeout :: "int option"

definition safe_timeout :: int where
  "safe_timeout = 8"

definition execute_safe_command ::
  "env \<Rightarrow> args \<Rightarrow> world \<Rightarrow> exn + (report option \<times> world)" where
  "execute_safe_command env a w =
     (let cmd = command a in
      case getcwd env of
        Inl e \<Rightarrow> Inl e
      | Inr here \<Rightarrow>
          let dir = (case cwd a of None \<Rightarrow> here | Some d \<Rightarrow> d);
              forced = (case force_background a of None \<Rightarrow> False | Some b \<Rightarrow> b);
              custom_timeout = timeout a;
              cmd_type = classify_command cmd
          in if forced \<or> cmd_type \<in> set [Test, Build, Long]
             then Inr (execute_background env cmd dir w)
             else
               let t = (case custom_timeout of
                          None \<Rightarrow> safe_timeout
                        | Some n \<Rightarrow> if n \<noteq> 0 then n else safe_timeout)
               in Inr (execute_with_timeout env cmd dir t w))"

section \<open>Status and context readers\<close>

text \<open>
  \<open>output_dir.glob(pre + "*" + suf)\<close>: the entries of the directory whose name starts
  with \<open>pre\<close> and ends with \<open>suf\<close>, the two not overlapping, in listing order.
\<close>

definition endswith :: "string \<Rightarrow> string \<Rightarrow> bool" where
  "endswith s p = startswith (rev s) (rev p)"

definition glob :: "string \<Rightarrow> string \<Rightarrow> world \<Rightarrow> (path \<times> disk_file) list" where
  "glob pre suf w =
     filter (\<lambda>(name, f). startswith name pre \<and> endswith name suf
                          \<and> length pre + length suf \<le> length name)
       (files w)"

text \<open>
  \<open>sorted(..., key=os.path.getmtime, reverse=True)\<close>: descending by modification time;
  Python's sort is stable also when reversed, so files of equal time keep their order.
\<close>

definition sorted_newest :: "(path \<times> disk_file) list \<Rightarrow> (path \<times> disk_file) list" where
  "sorted_newest xs = rev (sort_key (\<lambda>(name, f). mtime f) (rev xs))"

text \<open>
  \<open>Path.stem\<close> of a name that ends in a suffix of a dot and three letters, as every
  name matched by \<open>bg_*.log\<close> does. (Such a name also contains an underscore, so the
  unused \<open>log_file.stem.split('_')[1]\<close> of the source cannot fail.) The marker's name
  \<open>log_file.stem.replace('bg_', 'bg_') + ".pid"\<close> is the stem followed by \<open>.pid\<close>.
\<close>

definition stem :: "path \<Rightarrow> string" where
  "stem name = take (length name - 4) name"

datatype status = Running | Completed | Unknown

text \<open>
  One block of the status report: the "Command:" line (the stem of the log's name), the
  "Status:" line, the "Log:" line and the "Recent output:" block when there is one.
\<close>

record status_entry =
  se_command :: string
  se_status :: status
  se_log :: path
  se_recent :: "string option"

datatype status_report = NoBackground | StatusReport "status_entry list"

text \<open>
  The \<open>try\<close> around \<open>os.kill(int(pid), 0)\<close>: \<open>OSError\<close> and \<open>ValueError\<close> are
  caught, any other exception leaves the function.
\<close>

definition probe :: "env \<Rightarrow> string \<Rightarrow> exn + status" where
  "probe env pid =
     (case py_int (max_str_digits env) pid of
        None \<Rightarrow> Inr Completed
      | Some n \<Rightarrow>
          (case os_kill env n of
             Signalled \<Rightarrow> Inr Running
           | KillRaises (OSError m) \<Rightarrow> Inr Completed
           | KillRaises (ValueError m) \<Rightarrow> Inr Completed
           | KillRaises (OverflowError m) \<Rightarrow> Inl (OverflowError m)))"

definition marker_status :: "env \<Rightarrow> world \<Rightarrow> path \<Rightarrow> exn + status" where
  "marker_status env w pid_file =
     (case map_of (files w) pid_file of
        None \<Rightarrow> Inr Unknown
      | Some pf \<Rightarrow>
          (case read_error pf of
             Some e \<Rightarrow> Inl e
           | None \<Rightarrow> probe env (str_strip (read_text (content pf)))))"

definition status_block ::
  "env \<Rightarrow> world \<Rightarrow> bool \<Rightarrow> path \<times> disk_file \<Rightarrow> exn + status_entry" where
  "status_block env w show_output lf =
     (case lf of (name, f) \<Rightarrow>
        (case marker_status env w (stem name @ ''.pid'') of
           Inl e \<Rightarrow> Inl e
         | Inr st \<Rightarrow>
             if show_output then
               (case read_error f of
                  Some e \<Rightarrow> Inl e
                | None \<Rightarrow>
                    let recent_output = slice_from (- 1000) (read_text (content f)) in
                    Inr \<lparr>se_command = stem name, se_status = st, se_log = name,
                         se_recent = (if str_strip recent_output \<noteq> [] then Some recent_output
                                      else None)\<rparr>)
             else Inr \<lparr>se_command = stem name, se_status = st, se_log = name,
                       se_recent = None\<rparr>))"

text \<open>A \<open>for\<close> loop that builds the report block by block and stops at the first exception.\<close>

fun for_each :: "('a \<Rightarrow> exn + 'b) \<Rightarrow> 'a list \<Rightarrow> exn + 'b list" where
  "for_each body [] = Inr []"
| "for_each body (x # xs) =
     (case body x of
        Inl e \<Rightarrow> Inl e
      | Inr y \<Rightarrow> (case for_each body xs of Inl e \<Rightarrow> Inl e | Inr ys \<Rightarrow> Inr (y # ys)))"

definition check_status :: "env \<Rightarrow> bool option \<Rightarrow> world \<Rightarrow> exn + status_report" where
  "check_status env show_output_arg w =
     (let show_output = (case show_output_arg of None \<Rightarrow> True | Some b \<Rightarrow> b);
          bg_files = sorted_newest (glob ''bg_'' ''.log'' w)
      in if bg_files = [] then Inr NoBackground
         else (case for_each (status_block env w show_output) (take 5 bg_files) of
                 Inl e \<Rightarrow> Inl e
               | Inr blocks \<Rightarrow> Inr (StatusReport blocks)))"

text \<open>
  One block of the context report: the file name, the "(showing last ... lines)" note
  with its number when the log is cut, and the text shown.
\<close>

record context_block =
  cb_name :: path
  cb_note :: "int option"
  cb_text :: string

definition context_of :: "int \<Rightarrow> path \<times> disk_file \<Rightarrow> exn + context_block" where
  "context_of lines lf =
     (case lf of (name, f) \<Rightarrow>
        (case read_error f of
           Some e \<Rightarrow> Inl e
         | None \<Rightarrow>
             let whole = read_text (content f);
                 content_lines = str_splitlines whole
             in if int (length content_lines) > lines
                then Inr \<lparr>cb_name = name, cb_note = Some lines,
                          cb_text = str_join ''\<newline>'' (slice_from (- lines) content_lines)\<rparr>
                else Inr \<lparr>cb_name = name, cb_note = None, cb_text = whole\<rparr>))"

definition get_context :: "int option \<Rightarrow> world \<Rightarrow> exn + context_block list" where
  "get_context lines_arg w =
     (let lines = (case lines_arg of None \<Rightarrow> 50 | Some n \<Rightarrow> n);
          all_files = sorted_newest (glob [] ''.log'' w)
      in for_each (context_of lines) (take 3 all_files))"

section \<open>The tool boundary\<close>

text \<open>
  \<open>handle_call_tool\<close> receives the tool's name and the dictionary of arguments, calls
  the operation and returns what it returns (\<^term>\<open>None\<close> when the operation does not
  return); it has no handler, so an exception of the operation leaves it. The dictionary is a record: the keys read by
  \<open>run_command_safe\<close>, and the optional keys \<open>show_output\<close> and \<open>lines\<close>.
\<close>

record arguments =
  arg_run :: args
  arg_show_output :: "bool option"
  arg_lines :: "int option"

datatype tool_result =
    RunResult report
  | StatusResult status_report
  | ContextResult "context_block list"

definition handle_call_tool ::
  "env \<Rightarrow> string \<Rightarrow> arguments \<Rightarrow> world \<Rightarrow> exn + (tool_result option \<times> world)" where
  "handle_call_tool env name arguments w =
     (if name = ''run_command_safe'' then
        (case execute_safe_command env (arg_run arguments) w of
           Inl e \<Rightarrow> Inl e
         | Inr (r, w') \<Rightarrow> Inr (map_option RunResult r, w'))
      else if name = ''check_command_status'' then
        (case check_status env (arg_show_output arguments) w of
           Inl e \<Rightarrow> Inl e
         | Inr r \<Rightarrow> Inr (Some (StatusResult r), w))
      else if name = ''get_terminal_context'' then
        (case get_context (arg_lines arguments) w of
           Inl e \<Rightarrow> Inl e
         | Inr r \<Rightarrow> Inr (Some (ContextResult r), w))
      else Inl (ValueError (''Unknown tool: '' @ name)))"


section \<open>Vocabulary of the properties\<close>

text \<open>
  The working directory of a call, \<open>here\<close> being the server's current directory.
\<close>

definition working_dir :: "string \<Rightarrow> args \<Rightarrow> string" where
  "working_dir here a = (case cwd a of None \<Rightarrow> here | Some d \<Rightarrow> d)"

text \<open>
  The effective timeout in the words of the specification: the caller's value when it
  is provided and nonzero, the built-in default of 8 seconds otherwise.
\<close>

definition effective_timeout :: "int option \<Rightarrow> int" where
  "effective_timeout t = (if t = None \<or> t = Some 0 then 8 else the t)"

text \<open>Which executor a report comes from.\<close>

fun from_background :: "report \<Rightarrow> bool" where
  "from_background (BgStarted pid log initial) = True"
| "from_background (BgError m) = True"
| "from_background r = False"

text \<open>The name of the log of a bounded invocation.\<close>

definition safe_log :: "env \<Rightarrow> path" where
  "safe_log env = ''safe_'' @ str_nat (time_int env) @ ''.log''"

subsection \<open>The classifier of the specification\<close>

text \<open>
  The reference definition, in the words of the specification. A string contains a
  keyword when the keyword occurs in it as a contiguous piece; matching is against the
  lower-cased command line as a whole. A token starts at every character that is not
  whitespace and is the first of the line or follows whitespace.
\<close>

definition mentions :: "string list \<Rightarrow> string \<Rightarrow> bool" where
  "mentions keywords s = (\<exists>k \<in> set keywords. \<exists>pre post. str_lower s = pre @ k @ post)"

definition token_starts :: "bool \<Rightarrow> string \<Rightarrow> nat set" where
  "token_starts first s =
     {i. i < length s \<and> \<not> isspace (s ! i) \<and> (if i = 0 then first else isspace (s ! (i - 1)))}"

definition token_count :: "string \<Rightarrow> nat" where
  "token_count s = card (token_starts True s)"

definition classify_ref :: "string \<Rightarrow> category" where
  "classify_ref s =
     (if mentions test_patterns s then Test
      else if mentions build_patterns s then Build
      else if mentions long_patterns s then Long
      else if token_count s > 5 then Complex
      else Quick)"

subsection \<open>Concrete inputs\<close>

definition plain_file :: "string \<Rightarrow> nat \<Rightarrow> disk_file" where
  "plain_file text t = \<lparr>content = text, mtime = t, read_error = None\<rparr>"

definition no_process :: "int \<Rightarrow> kill_result" where
  "no_process pid = KillRaises (OSError ''No such process'')"

text \<open>
  A process that prints \<open>out\<close> and exits with \<open>rc\<close> before the deadline; one that is
  still running at the deadline and is gone after the kill; one that has exited with code
  0 while a descendant keeps the output stream open past the deadline; one whose
  descendant never closes the stream.
\<close>

definition ran :: "string \<Rightarrow> int \<Rightarrow> proc" where
  "ran out rc = \<lparr>exit_code = Some rc, piped = Some out, reaped = True\<rparr>"

definition slow :: proc where
  "slow = \<lparr>exit_code = None, piped = None, reaped = True\<rparr>"

definition orphaning :: proc where
  "orphaning = \<lparr>exit_code = Some 0, piped = None, reaped = True\<rparr>"

definition endless :: proc where
  "endless = \<lparr>exit_code = None, piped = None, reaped = False\<rparr>"

definition env0 :: env where
  "env0 = \<lparr>getcwd = Inr ''/home'', time_int = 17, ctime_start = ''Mon'', ctime_end = ''Tue'',
     max_str_digits = 4300, write_header = Written, spawn = Inr (ran ''hello\<newline>'' 0),
     write_footer = Written, bg_spawn = LaunchPrinted ''4242\<newline>'',
     bg_log = Some (plain_file ''ok\<newline>'' 17), write_pid = Written, os_kill = no_process\<rparr>"

definition world0 :: world where
  "world0 = \<lparr>files = [], trace = []\<rparr>"

definition call :: "string \<Rightarrow> bool option \<Rightarrow> int option \<Rightarrow> args" where
  "call c fb t = \<lparr>command = c, cwd = None, force_background = fb, timeout = t\<rparr>"

subsection \<open>Reading the world\<close>

text \<open>The text of a file, when it exists.\<close>

definition log_text :: "world \<Rightarrow> path \<Rightarrow> string option" where
  "log_text w p = map_option content (map_of (files w) p)"

text \<open>What a call has done: the events it added to the trace.\<close>

definition events_since :: "world \<Rightarrow> world \<Rightarrow> event list" where
  "events_since w w' = drop (length (trace w)) (trace w')"

subsection \<open>More concrete inputs\<close>

definition env_sleep :: env where
  "env_sleep = env0\<lparr>spawn := Inr slow\<rparr>"

definition env_sleep_full :: env where
  "env_sleep_full = env0\<lparr>spawn := Inr slow,
                         write_footer := WriteRaises (OSError ''No space left on device'') 10\<rparr>"

definition env_sleep_locked :: env where
  "env_sleep_locked = env0\<lparr>spawn := Inr slow,
                           write_footer := OpenRaises (OSError ''Permission denied'')\<rparr>"

definition env_endless :: env where
  "env_endless = env0\<lparr>spawn := Inr endless\<rparr>"

definition env_orphan :: env where
  "env_orphan = env0\<lparr>spawn := Inr orphaning\<rparr>"

definition env_echo_full :: env where
  "env_echo_full = env0\<lparr>write_footer := WriteRaises (OSError ''No space left on device'') 3\<rparr>"

definition env_echo_locked :: env where
  "env_echo_locked = env0\<lparr>write_footer := OpenRaises (OSError ''Permission denied'')\<rparr>"

definition env_nocwd :: env where
  "env_nocwd = env0\<lparr>spawn := Inl (OSError ''No such file or directory'')\<rparr>"

definition env_badcmd :: env where
  "env_badcmd = env0\<lparr>spawn := Inr (ran ''/bin/sh: 1: frobnicate: not found\<newline>'' 127)\<rparr>"

definition env_gone :: env where
  "env_gone = env0\<lparr>getcwd := Inl (OSError ''No such file or directory'')\<rparr>"

subsection \<open>What a write has left\<close>

text \<open>The part of a text that a \<open>with\<close> block has put into its file.\<close>

definition written_part :: "io \<Rightarrow> string \<Rightarrow> string" where
  "written_part r text =
     (case r of Written \<Rightarrow> text | OpenRaises e \<Rightarrow> [] | WriteRaises e n \<Rightarrow> take n text)"

text \<open>
  The text that a bounded invocation appends at its end: the summary when
  \<open>communicate()\<close> has returned, the timeout marker otherwise.
\<close>

definition closing_text :: "env \<Rightarrow> int \<Rightarrow> proc \<Rightarrow> string" where
  "closing_text env t p =
     (case communicate p of
        Some (out, rc) \<Rightarrow> log_summary env out rc
      | None \<Rightarrow> log_timeout env t)"

subsection \<open>The status report of the specification\<close>








subsection \<open>A directory with background runs\<close>





subsection \<open>Directories for the readers\<close>

definition world_ctx :: world where
  "world_ctx = \<lparr>files = [(''safe_17.log'', plain_file ''a\<newline>b\<newline>c\<newline>'' 7)], trace = []\<rparr>"

definition world_locked :: world where
  "world_locked =
     \<lparr>files =
        [(''bg_1_make.log'', plain_file ''cc -c a.c\<newline>'' 5),
         (''bg_1_make.pid'',
          \<lparr>content = ''12'', mtime = 5, read_error = Some (OSError ''Permission denied'')\<rparr>)],
      trace = []\<rparr>"

definition no_arguments :: arguments where
  "no_arguments = \<lparr>arg_run = call ''ls'' None None, arg_show_output = None, arg_lines = None\<rparr>"

definition world_binary :: world where
  "world_binary =
     \<lparr>files =
        [(''bg_1_make.log'',
          \<lparr>content = [], mtime = 5,
           read_error = Some (ValueError ''utf-8 codec cannot decode byte 0xff'')\<rparr>)],
      trace = []\<rparr>"

subsection \<open>The files of a background invocation\<close>

text \<open>The common stem of the log and the marker of a background invocation.\<close>

definition bg_name :: "env \<Rightarrow> string \<Rightarrow> string" where
  "bg_name env cmd =
     ''bg_'' @ str_nat (time_int env) @ ''_''
       @ filter (\<lambda>c. isalnum c \<or> c = CHR ''_'' \<or> c = CHR ''-'') (take 20 cmd)"

text \<open>The command line handed to the shell by the background launcher.\<close>

definition bg_shell_line :: "env \<Rightarrow> string \<Rightarrow> string" where
  "bg_shell_line env cmd =
     cmd @ '' > '' @ bg_name env cmd @ ''.log'' @ '' 2>&1 & echo $!''"


section \<open>Routing and the effective timeout\<close>

lemma category_cases: "c \<notin> {Test, Build, Long} \<longleftrightarrow> c \<in> {Complex, Quick}"
  by (cases c) simp_all

lemma call_sel [simp]:
  "command (call c fb t) = c" "force_background (call c fb t) = fb" "timeout (call c fb t) = t"
  "working_dir here (call c fb t) = here"
  by (simp_all add: call_def working_dir_def)

lemma env0_fields [simp]:
  "write_header env0 = Written" "spawn env0 = Inr (ran ''hello\<newline>'' 0)"
  "write_footer env0 = Written" "time_int env0 = 17" "getcwd env0 = Inr ''/home''"
  "bg_spawn env0 = LaunchPrinted ''4242\<newline>''"
  "bg_log env0 = Some (plain_file ''ok\<newline>'' 17)"
  "write_pid env0 = Written" "os_kill env0 = no_process" "max_str_digits env0 = 4300"
  by (simp_all add: env0_def)

lemma execute_background_report:
  "fst (execute_background env c d w) = Some r \<Longrightarrow> from_background r"
  by (auto simp: execute_background_def write_block_def Let_def
        split: launch.splits option.splits io.splits)

lemma execute_with_timeout_report:
  "fst (execute_with_timeout env c d t w) = Some r \<Longrightarrow> \<not> from_background r"
  by (auto simp: execute_with_timeout_def write_block_def append_block_def Let_def
        split: sum.splits option.splits io.splits if_splits prod.splits)

lemma getcwd_raises:
  assumes "getcwd env = Inl e"
  shows "execute_safe_command env a w = Inl e"
  using assms by (simp add: execute_safe_command_def)

lemma routed_background:
  assumes "getcwd env = Inr here"
    and "force_background a = Some True \<or> classify_command (command a) \<in> {Test, Build, Long}"
  shows "execute_safe_command env a w
         = Inr (execute_background env (command a) (working_dir here a) w)"
  using assms by (auto simp: execute_safe_command_def working_dir_def Let_def)

lemma routed_bounded:
  assumes "getcwd env = Inr here"
    and "force_background a \<noteq> Some True"
    and "classify_command (command a) \<in> {Complex, Quick}"
  shows "execute_safe_command env a w =
         Inr (execute_with_timeout env (command a) (working_dir here a)
                (effective_timeout (timeout a)) w)"
proof -
  have forced: "(case force_background a of None \<Rightarrow> False | Some b \<Rightarrow> b) = False"
    using assms(2) by (cases "force_background a") auto
  have cat: "classify_command (command a) \<notin> set [Test, Build, Long]"
    using assms(3) by auto
  have t: "(case timeout a of None \<Rightarrow> safe_timeout | Some n \<Rightarrow> if n \<noteq> 0 then n else safe_timeout)
           = effective_timeout (timeout a)"
    by (cases "timeout a") (simp_all add: effective_timeout_def safe_timeout_def)
  show ?thesis
    unfolding execute_safe_command_def Let_def working_dir_def [symmetric]
    using assms(1) forced cat t by simp
qed

text \<open>
  C1, as the code has it. \<open>os.getcwd()\<close> is evaluated first; when it raises, no
  executor is reached. Otherwise a call goes to the background launcher exactly when
  \<open>force_background\<close> is true or the category is test, build or long, and to the
  bounded executor otherwise, that is when the category is complex or quick and
  \<open>force_background\<close> is absent or false. The kind of a report that comes back shows
  the route taken. Only the background path can be forced.
\<close>

theorem routing:
  "(getcwd env = Inl e \<longrightarrow> execute_safe_command env a w = Inl e)
   \<and> (getcwd env = Inr here \<longrightarrow>
        (force_background a = Some True \<or> classify_command (command a) \<in> {Test, Build, Long}
           \<longrightarrow> execute_safe_command env a w
               = Inr (execute_background env (command a) (working_dir here a) w))
        \<and> (force_background a \<noteq> Some True \<and> classify_command (command a) \<in> {Complex, Quick}
           \<longrightarrow> execute_safe_command env a w
               = Inr (execute_with_timeout env (command a) (working_dir here a)
                        (effective_timeout (timeout a)) w)))
   \<and> (execute_safe_command env a w = Inr (Some r, w')
        \<longrightarrow> (from_background r
             \<longleftrightarrow> force_background a = Some True
                 \<or> classify_command (command a) \<in> {Test, Build, Long}))"
proof (intro conjI impI)
  assume "getcwd env = Inl e"
  then show "execute_safe_command env a w = Inl e" by (rule getcwd_raises)
next
  assume "getcwd env = Inr here"
    and "force_background a = Some True \<or> classify_command (command a) \<in> {Test, Build, Long}"
  then show "execute_safe_command env a w
             = Inr (execute_background env (command a) (working_dir here a) w)"
    by (rule routed_background)
next
  assume "getcwd env = Inr here"
    and "force_background a \<noteq> Some True \<and> classify_command (command a) \<in> {Complex, Quick}"
  then show "execute_safe_command env a w
             = Inr (execute_with_timeout env (command a) (working_dir here a)
                      (effective_timeout (timeout a)) w)"
    by (simp add: routed_bounded)
next
  assume r: "execute_safe_command env a w = Inr (Some r, w')"
  then obtain here where h: "getcwd env = Inr here"
    by (cases "getcwd env") (simp_all add: execute_safe_command_def)
  show "from_background r
        \<longleftrightarrow> force_background a = Some True \<or> classify_command (command a) \<in> {Test, Build, Long}"
  proof (cases "force_background a = Some True
                \<or> classify_command (command a) \<in> {Test, Build, Long}")
    case True
    then have "fst (execute_background env (command a) (working_dir here a) w) = Some r"
      using routed_background [OF h True, of w] r by (metis sum.inject(2) fst_conv)
    then show ?thesis using True execute_background_report by blast
  next
    case False
    then have "force_background a \<noteq> Some True"
      and "classify_command (command a) \<in> {Complex, Quick}"
      using category_cases by auto
    then have "fst (execute_with_timeout env (command a) (working_dir here a)
                      (effective_timeout (timeout a)) w) = Some r"
      using routed_bounded [OF h, of a w] r by (metis sum.inject(2) fst_conv)
    then show ?thesis using False execute_with_timeout_report by blast
  qed
qed

lemma background_make:
  "execute_background env0 ''make all'' ''/home'' world0
   = (Some (BgStarted ''4242'' ''bg_17_makeall.log'' (Some ''ok\<newline>'')),
      \<lparr>files = [(''bg_17_makeall.log'', plain_file ''ok\<newline>'' 17),
                (''bg_17_makeall.pid'', plain_file ''4242'' 17)],
       trace = [SpawnShell ''make all > bg_17_makeall.log 2>&1 & echo $!'' ''/home'',
                WriteFile ''bg_17_makeall.pid'']\<rparr>)"
  by code_simp

theorem routing_witness:
  "getcwd env_gone = Inl (OSError ''No such file or directory'')
   \<and> execute_safe_command env_gone (call ''ls'' None None) world0
       = Inl (OSError ''No such file or directory'')
   \<and> classify_command ''make all'' \<in> {Test, Build, Long}
   \<and> execute_safe_command env0 (call ''make all'' None None) world0
       = Inr (execute_background env0 ''make all'' ''/home'' world0)
   \<and> classify_command ''ls -l'' \<in> {Complex, Quick}
   \<and> execute_safe_command env0 (call ''ls -l'' (Some False) None) world0
       = Inr (execute_with_timeout env0 ''ls -l'' ''/home'' 8 world0)
   \<and> execute_safe_command env0 (call ''ls'' (Some True) None) world0
       = Inr (execute_background env0 ''ls'' ''/home'' world0)
   \<and> from_background (BgStarted ''4242'' ''bg_17_makeall.log'' (Some ''ok\<newline>''))"
proof -
  have g: "getcwd env_gone = Inl (OSError ''No such file or directory'')"
    by (simp add: env_gone_def)
  have m: "classify_command ''make all'' = Build" by code_simp
  have l: "classify_command ''ls -l'' = Quick" by code_simp
  show ?thesis
    using routing [where env = env_gone and e = "OSError ''No such file or directory''"
        and a = "call ''ls'' None None" and w = world0]
      routing [where env = env0 and here = "''/home''" and a = "call ''make all'' None None"
        and w = world0 and r = "BgStarted ''4242'' ''bg_17_makeall.log'' (Some ''ok\<newline>'')"
        and w' = "snd (execute_background env0 ''make all'' ''/home'' world0)"]
      routing [where env = env0 and here = "''/home''"
        and a = "call ''ls -l'' (Some False) None" and w = world0]
      routing [where env = env0 and here = "''/home''"
        and a = "call ''ls'' (Some True) None" and w = world0]
      g m l background_make
    by (auto simp: effective_timeout_def)
qed

text \<open>
  The sentence of C1 that a caller may force either path, bypassing classification, fails
  for the bounded path: with \<open>force_background\<close> explicitly false the command
  \<open>pytest\<close> is still classified, and launched in the background.
\<close>

theorem routing_counterexample:
  "execute_safe_command env0 (call ''pytest'' (Some False) (Some 5)) world0
     = Inr (execute_background env0 ''pytest'' ''/home'' world0)
   \<and> execute_safe_command env0 (call ''pytest'' (Some False) (Some 5)) world0
     \<noteq> Inr (execute_with_timeout env0 ''pytest'' ''/home'' 5 world0)"
proof -
  have t: "classify_command ''pytest'' = Test" by code_simp
  have bg: "execute_safe_command env0 (call ''pytest'' (Some False) (Some 5)) world0
            = Inr (execute_background env0 ''pytest'' ''/home'' world0)"
    using routed_background [of env0 "''/home''" "call ''pytest'' (Some False) (Some 5)" world0] t
    by simp
  have b: "fst (execute_background env0 ''pytest'' ''/home'' world0)
           = Some (BgStarted ''4242'' ''bg_17_pytest.log'' (Some ''ok\<newline>''))"
    by code_simp
  have "fst (execute_with_timeout env0 ''pytest'' ''/home'' 5 world0)
        \<noteq> Some (BgStarted ''4242'' ''bg_17_pytest.log'' (Some ''ok\<newline>''))"
    using execute_with_timeout_report [of env0 "''pytest''" "''/home''" 5 world0] by fastforce
  with b have "execute_background env0 ''pytest'' ''/home'' world0
               \<noteq> execute_with_timeout env0 ''pytest'' ''/home'' 5 world0"
    by metis
  with bg show ?thesis by simp
qed

text \<open>
  C10. A call routed to the bounded executor runs with the caller's timeout when that is
  provided and nonzero, and with 8 seconds otherwise; an explicit 0 runs with 8.
\<close>

theorem bounded_timeout:
  assumes "getcwd env = Inr here"
    and "force_background a \<noteq> Some True"
    and "classify_command (command a) \<in> {Complex, Quick}"
  shows "execute_safe_command env a w =
           Inr (execute_with_timeout env (command a) (working_dir here a)
                  (case timeout a of None \<Rightarrow> 8 | Some n \<Rightarrow> if n = 0 then 8 else n) w)"
proof -
  have "effective_timeout (timeout a) = (case timeout a of None \<Rightarrow> 8 | Some n \<Rightarrow> if n = 0 then 8 else n)"
    by (cases "timeout a") (simp_all add: effective_timeout_def)
  then show ?thesis using routed_bounded [OF assms, of w] by simp
qed

theorem bounded_timeout_witness:
  "getcwd env0 = Inr ''/home''
   \<and> force_background (call ''ls -l'' None (Some 0)) \<noteq> Some True
   \<and> classify_command (command (call ''ls -l'' None (Some 0))) \<in> {Complex, Quick}
   \<and> execute_safe_command env0 (call ''ls -l'' None (Some 0)) world0
       = Inr (execute_with_timeout env0 ''ls -l'' ''/home'' 8 world0)
   \<and> execute_safe_command env0 (call ''ls -l'' None (Some 3)) world0
       = Inr (execute_with_timeout env0 ''ls -l'' ''/home'' 3 world0)"
proof -
  have l: "classify_command ''ls -l'' = Quick" by code_simp
  show ?thesis
    using bounded_timeout [of env0 "''/home''" "call ''ls -l'' None (Some 0)" world0]
      bounded_timeout [of env0 "''/home''" "call ''ls -l'' None (Some 3)" world0] l
    by simp
qed

section \<open>Classifier: agreement with the reference definition\<close>

lemma startswith_prefix: "startswith s p \<longleftrightarrow> prefix p s"
  by (induction s p rule: startswith.induct) auto

lemma str_in_sublist: "str_in p s \<longleftrightarrow> sublist p s"
  by (induction s) (simp_all add: startswith_prefix sublist_Cons_right)

lemma any_in_mentions: "any_in keywords (str_lower s) \<longleftrightarrow> mentions keywords s"
  by (auto simp: any_in_def mentions_def list_ex_iff str_in_sublist sublist_def)

lemma token_starts_Cons:
  "token_starts first (c # cs) =
     (if first \<and> \<not> isspace c then {0} else {}) \<union> Suc ` token_starts (isspace c) cs"
proof (rule set_eqI)
  fix i
  show "i \<in> token_starts first (c # cs) \<longleftrightarrow>
        i \<in> (if first \<and> \<not> isspace c then {0} else {}) \<union> Suc ` token_starts (isspace c) cs"
  proof (cases i)
    case 0
    then show ?thesis by (auto simp: token_starts_def)
  next
    case (Suc j)
    then show ?thesis by (cases j) (auto simp: token_starts_def)
  qed
qed

lemma finite_token_starts: "finite (token_starts first s)"
  by (simp add: token_starts_def)

lemma card_insert_zero_Suc:
  assumes "finite A"
  shows "card (insert 0 (Suc ` A)) = Suc (card A)"
proof -
  have "0 \<notin> Suc ` A" by auto
  moreover have "card (Suc ` A) = card A" by (simp add: card_image)
  ultimately show ?thesis using assms by simp
qed

lemma card_token_starts_Cons:
  "card (token_starts first (c # cs)) =
     (if first \<and> \<not> isspace c then 1 else 0) + card (token_starts (isspace c) cs)"
  by (simp add: token_starts_Cons card_insert_zero_Suc finite_token_starts card_image)

lemma length_split_from:
  "length (split_from cur s) = (if cur = [] then 0 else 1) + card (token_starts (cur = []) s)"
proof (induction s arbitrary: cur)
  case Nil
  then show ?case by (simp add: token_starts_def)
next
  case (Cons c cs)
  show ?case by (simp add: Cons.IH card_token_starts_Cons)
qed

lemma length_str_split: "length (str_split s) = token_count s"
  by (simp add: str_split_def token_count_def length_split_from)

lemma classify_command_ref: "classify_command c = classify_ref c"
  by (simp add: classify_command_def classify_ref_def Let_def any_in_mentions length_str_split)

lemma mentions_spelling:
  assumes "str_lower k \<in> set keywords"
  shows "mentions keywords (pre @ k @ post)"
  unfolding mentions_def
proof (intro bexI exI)
  show "str_lower (pre @ k @ post) = str_lower pre @ str_lower k @ str_lower post"
    by (simp add: str_lower_def)
  show "str_lower k \<in> set keywords" by (rule assms)
qed

lemma mentions_append:
  "mentions (xs @ ys) s \<longleftrightarrow> mentions xs s \<or> mentions ys s"
  by (auto simp: mentions_def)

text \<open>
  C2. \<open>classify_command\<close> is the reference function. A test keyword, in any
  capitalisation and with any text around it, gives test; a build keyword gives build
  when no test keyword occurs, a network keyword gives long when no test or build keyword
  occurs (first match wins); a command with no keyword and more than five tokens is
  complex.
\<close>

theorem classify_reference:
  "classify_command c = classify_ref c
   \<and> (str_lower k \<in> set test_patterns \<longrightarrow> classify_command (pre @ k @ post) = Test)
   \<and> (str_lower k \<in> set build_patterns \<and> \<not> mentions test_patterns (pre @ k @ post)
        \<longrightarrow> classify_command (pre @ k @ post) = Build)
   \<and> (str_lower k \<in> set long_patterns \<and> \<not> mentions test_patterns (pre @ k @ post)
        \<and> \<not> mentions build_patterns (pre @ k @ post)
        \<longrightarrow> classify_command (pre @ k @ post) = Long)
   \<and> (\<not> mentions (test_patterns @ build_patterns @ long_patterns) c \<and> 5 < token_count c
        \<longrightarrow> classify_command c = Complex)"
  using mentions_spelling [of k _ pre post]
  by (auto simp: classify_command_ref classify_ref_def mentions_append)

theorem classify_reference_witness:
  "classify_command ''ls -l a b c d'' = classify_ref ''ls -l a b c d''
   \<and> classify_command ''run PyTest -q'' = Test
   \<and> classify_command ''sudo MAKE all'' = Build
   \<and> classify_command ''git Clone x'' = Long
   \<and> classify_command ''ls -l a b c d'' = Complex"
proof -
  have t: "str_lower ''PyTest'' \<in> set test_patterns" by code_simp
  have b: "str_lower ''MAKE'' \<in> set build_patterns" by code_simp
  have l: "str_lower ''Clone'' \<in> set long_patterns" by code_simp
  have nb: "\<not> any_in test_patterns (str_lower ''sudo MAKE all'')" by code_simp
  have nl: "\<not> any_in test_patterns (str_lower ''git Clone x'')"
    "\<not> any_in build_patterns (str_lower ''git Clone x'')" by code_simp+
  have nc: "\<not> any_in test_patterns (str_lower ''ls -l a b c d'')"
    "\<not> any_in build_patterns (str_lower ''ls -l a b c d'')"
    "\<not> any_in long_patterns (str_lower ''ls -l a b c d'')" by code_simp+
  have n: "length (str_split ''ls -l a b c d'') = 6" by code_simp
  show ?thesis
    using classify_reference [of "''ls -l a b c d''" "''PyTest''" "''run ''" "'' -q''"]
      classify_reference [of "''ls -l a b c d''" "''MAKE''" "''sudo ''" "'' all''"]
      classify_reference [of "''ls -l a b c d''" "''Clone''" "''git ''" "'' x''"]
      t b l nb nl nc n
    by (simp add: any_in_mentions length_str_split mentions_append)
qed


section \<open>Bounded executor: the outcomes\<close>

lemma map_of_open_w:
  "map_of (files (open_w p text stamp w)) =
     (map_of (files w))(p \<mapsto> \<lparr>content = text, mtime = stamp,
        read_error = (case map_of (files w) p of None \<Rightarrow> None | Some f \<Rightarrow> read_error f)\<rparr>)"
  by (simp add: open_w_def update_conv')

lemma map_of_open_a:
  "map_of (files (open_a p text stamp w)) =
     (map_of (files w))(p \<mapsto>
        (case map_of (files w) p of
           None \<Rightarrow> \<lparr>content = text, mtime = stamp, read_error = None\<rparr>
         | Some f \<Rightarrow> f\<lparr>content := content f @ text, mtime := stamp\<rparr>))"
  by (simp add: open_a_def update_conv')

lemma files_emit [simp]: "files (emit es w) = files w"
  by (simp add: emit_def)

lemma trace_emit [simp]: "trace (emit es w) = trace w @ es"
  by (simp add: emit_def)

lemma trace_open_w [simp]: "trace (open_w p text stamp w) = trace w @ [WriteFile p]"
  by (simp add: open_w_def)

lemma trace_open_a [simp]: "trace (open_a p text stamp w) = trace w @ [AppendFile p]"
  by (simp add: open_a_def)

lemma log_text_open_w: "log_text (open_w p text stamp w) q = (if q = p then Some text else log_text w q)"
  by (simp add: log_text_def map_of_open_w)

lemma log_text_open_a:
  "log_text (open_a p text stamp w) q =
     (if q = p then Some (case log_text w p of None \<Rightarrow> text | Some old \<Rightarrow> old @ text)
      else log_text w q)"
  by (simp add: log_text_def map_of_open_a split: option.split)

lemma log_text_emit [simp]: "log_text (emit es w) q = log_text w q"
  by (simp add: log_text_def)

text \<open>The world after the bounded executor, when the header has been written.\<close>

lemma bounded_world:
  assumes "write_header env = Written"
  shows "snd (execute_with_timeout env c d t w) =
         (let w1 = open_w (safe_log env) (log_header env c d t) (time_int env) w in
          case spawn env of
            Inl e \<Rightarrow> w1
          | Inr p \<Rightarrow>
              if communicate p = None \<and> \<not> reaped p then emit [SpawnShell c d, Kill] w1
              else
                let w2 = emit (SpawnShell c d # (if communicate p = None then [Kill, Wait] else [])) w1
                in (case write_footer env of
                      OpenRaises e \<Rightarrow> w2
                    | r \<Rightarrow> open_a (safe_log env)
                             (written_part r (closing_text env t p)) (time_int env) w2))"
  using assms
  by (auto simp: execute_with_timeout_def write_block_def append_block_def safe_log_def Let_def
        written_part_def closing_text_def emit_def
        split: sum.split option.split io.split prod.split)

lemma bounded_log_text:
  assumes "write_header env = Written"
  shows "log_text (snd (execute_with_timeout env c d t w)) (safe_log env) =
         Some (log_header env c d t @
               (case spawn env of
                  Inl e \<Rightarrow> []
                | Inr p \<Rightarrow>
                    if communicate p = None \<and> \<not> reaped p then []
                    else written_part (write_footer env) (closing_text env t p)))"
  by (auto simp: bounded_world [OF assms] Let_def log_text_open_w log_text_open_a
        written_part_def
        split: sum.split io.split)

lemma bounded_events:
  assumes "write_header env = Written"
  shows "events_since w (snd (execute_with_timeout env c d t w)) =
         WriteFile (safe_log env)
         # (case spawn env of
              Inl e \<Rightarrow> []
            | Inr p \<Rightarrow>
                SpawnShell c d
                # (if communicate p = None then Kill # (if reaped p then [Wait] else []) else [])
                @ (if (communicate p = None \<and> \<not> reaped p)
                      \<or> (\<exists>e. write_footer env = OpenRaises e)
                   then [] else [AppendFile (safe_log env)]))"
  by (auto simp: bounded_world [OF assms] Let_def events_since_def
        split: sum.split io.split)

lemma bounded_report:
  assumes "write_header env = Written"
  shows "fst (execute_with_timeout env c d t w) =
         (case spawn env of
            Inl e \<Rightarrow> Some (ExecError (str_exn e))
          | Inr p \<Rightarrow>
              (case communicate p of
                 Some (out, rc) \<Rightarrow>
                   (case write_footer env of
                      Written \<Rightarrow>
                        Some (CompletedOk rc (take 2000 out)
                                (if 2000 < length out then Some (safe_log env) else None))
                    | OpenRaises e \<Rightarrow> Some (ExecError (str_exn e))
                    | WriteRaises e n \<Rightarrow> Some (ExecError (str_exn e)))
               | None \<Rightarrow>
                   if \<not> reaped p then None
                   else
                     (case write_footer env of
                        Written \<Rightarrow> Some (TimedOut t (safe_log env))
                      | OpenRaises e \<Rightarrow> Some (ExecError (str_exn e))
                      | WriteRaises e n \<Rightarrow> Some (ExecError (str_exn e)))))"
  using assms
  by (auto simp: execute_with_timeout_def write_block_def append_block_def safe_log_def Let_def
        split: sum.split option.split io.split prod.split)

lemma str_nat_17: "str_nat 17 = ''17''"
  by code_simp

lemma safe_log_17 [simp]: "time_int env = 17 \<Longrightarrow> safe_log env = ''safe_17.log''"
  by (simp add: safe_log_def str_nat_17)

lemma log_text_world0 [simp]: "log_text world0 p = None"
  by (simp add: log_text_def world0_def)

lemma trace_world0 [simp]: "trace world0 = []"
  by (simp add: world0_def)

lemma communicate_simps [simp]:
  "communicate (ran out rc) = Some (out, rc)" "communicate slow = None"
  "communicate orphaning = None" "communicate endless = None"
  "reaped slow" "reaped orphaning" "\<not> reaped endless"
  "exit_code orphaning = Some 0" "piped orphaning = None"
  "exit_code (ran out rc) = Some rc" "exit_code slow = None" "exit_code endless = None"
  by (simp_all add: communicate_def ran_def slow_def orphaning_def endless_def)

text \<open>
  When the wait after the kill does not return, the call does not return: the process
  has been sent the kill, and the log holds the header.
\<close>

lemma timeout_never_reaped:
  assumes "write_header env = Written" and "spawn env = Inr p"
    and "communicate p = None" and "\<not> reaped p"
  shows "fst (execute_with_timeout env c d t w) = None
    \<and> events_since w (snd (execute_with_timeout env c d t w))
        = [WriteFile (safe_log env), SpawnShell c d, Kill]
    \<and> log_text (snd (execute_with_timeout env c d t w)) (safe_log env)
        = Some (log_header env c d t)"
  using assms(2-)
  by (simp add: bounded_report [OF assms(1)] bounded_events [OF assms(1)]
        bounded_log_text [OF assms(1)])


lemma env_sleep_fields [simp]:
  "write_header env_sleep = Written" "spawn env_sleep = Inr slow"
  "write_footer env_sleep = Written" "time_int env_sleep = 17"
  "write_header env_sleep_locked = Written" "spawn env_sleep_locked = Inr slow"
  "write_footer env_sleep_locked = OpenRaises (OSError ''Permission denied'')"
  "time_int env_sleep_locked = 17"
  "write_header env_sleep_full = Written" "spawn env_sleep_full = Inr slow"
  "write_footer env_sleep_full = WriteRaises (OSError ''No space left on device'') 10"
  "time_int env_sleep_full = 17"
  "write_header env_endless = Written" "spawn env_endless = Inr endless"
  "time_int env_endless = 17"
  "write_header env_orphan = Written" "spawn env_orphan = Inr orphaning"
  "write_footer env_orphan = Written" "time_int env_orphan = 17"
  by (simp_all add: env_sleep_def env_sleep_locked_def env_sleep_full_def env_endless_def
        env_orphan_def)




lemma env_echo_fields [simp]:
  "write_header env_echo_full = Written" "spawn env_echo_full = Inr (ran ''hello\<newline>'' 0)"
  "write_footer env_echo_full = WriteRaises (OSError ''No space left on device'') 3"
  "time_int env_echo_full = 17"
  "write_header env_echo_locked = Written" "spawn env_echo_locked = Inr (ran ''hello\<newline>'' 0)"
  "write_footer env_echo_locked = OpenRaises (OSError ''Permission denied'')"
  "time_int env_echo_locked = 17"
  by (simp_all add: env_echo_full_def env_echo_locked_def)



text \<open>
  C5, as the code has it. When \<open>create_subprocess_shell\<close> raises after the header
  has been written (the working directory is missing, for one), the report is the error
  report with the exception's text, not the success and not the timeout report; the log
  holds the header and nothing else, and nothing is done after the header is written.
  The same comes back from \<open>execute_safe_command\<close> for every call routed to the bounded
  executor, once \<open>os.getcwd()\<close> has returned. A shell that does start and ends before
  the deadline gives the success report with its exit code, whatever that code is, and a
  completed log: so it is for a command that the shell cannot find (127) or may not
  execute (126).
\<close>

theorem startup_failure:
  "write_header env = Written \<longrightarrow>
     (spawn env = Inl e \<longrightarrow>
        fst (execute_with_timeout env c d t w) = Some (ExecError (str_exn e))
      \<and> log_text (snd (execute_with_timeout env c d t w)) (safe_log env)
          = Some (log_header env c d t)
      \<and> events_since w (snd (execute_with_timeout env c d t w)) = [WriteFile (safe_log env)]
      \<and> (getcwd env = Inr here \<and> force_background a \<noteq> Some True
           \<and> classify_command (command a) \<in> {Complex, Quick}
         \<longrightarrow> execute_safe_command env a w
             = Inr (Some (ExecError (str_exn e)),
                    open_w (safe_log env)
                      (log_header env (command a) (working_dir here a)
                         (effective_timeout (timeout a)))
                      (time_int env) w)))
   \<and> (spawn env = Inr p \<and> communicate p = Some (out, rc) \<and> write_footer env = Written \<longrightarrow>
        fst (execute_with_timeout env c d t w)
          = Some (CompletedOk rc (take 2000 out)
                    (if 2000 < length out then Some (safe_log env) else None))
      \<and> log_text (snd (execute_with_timeout env c d t w)) (safe_log env)
          = Some (log_header env c d t @ log_summary env out rc))"
proof (intro impI conjI)
  assume h: "write_header env = Written" and s: "spawn env = Inl e"
  show r: "fst (execute_with_timeout env c d t w) = Some (ExecError (str_exn e))" for c d t
    using s by (simp add: bounded_report [OF h])
  show "log_text (snd (execute_with_timeout env c d t w)) (safe_log env)
          = Some (log_header env c d t)"
    using s by (simp add: bounded_log_text [OF h])
  show "events_since w (snd (execute_with_timeout env c d t w)) = [WriteFile (safe_log env)]"
    using s by (simp add: bounded_events [OF h])
  assume "getcwd env = Inr here \<and> force_background a \<noteq> Some True
           \<and> classify_command (command a) \<in> {Complex, Quick}"
  then have "execute_safe_command env a w
             = Inr (execute_with_timeout env (command a) (working_dir here a)
                      (effective_timeout (timeout a)) w)"
    by (simp add: routed_bounded)
  moreover have "snd (execute_with_timeout env (command a) (working_dir here a)
                      (effective_timeout (timeout a)) w)
                 = open_w (safe_log env)
                      (log_header env (command a) (working_dir here a)
                         (effective_timeout (timeout a)))
                      (time_int env) w"
    using s by (simp add: bounded_world [OF h])
  ultimately show "execute_safe_command env a w
             = Inr (Some (ExecError (str_exn e)),
                    open_w (safe_log env)
                      (log_header env (command a) (working_dir here a)
                         (effective_timeout (timeout a)))
                      (time_int env) w)"
    using r by (metis prod.collapse)
next
  assume h: "write_header env = Written"
    and s: "spawn env = Inr p \<and> communicate p = Some (out, rc) \<and> write_footer env = Written"
  show "fst (execute_with_timeout env c d t w)
          = Some (CompletedOk rc (take 2000 out)
                    (if 2000 < length out then Some (safe_log env) else None))"
    using s by (simp add: bounded_report [OF h])
  show "log_text (snd (execute_with_timeout env c d t w)) (safe_log env)
          = Some (log_header env c d t @ log_summary env out rc)"
    using s by (simp add: bounded_log_text [OF h] written_part_def closing_text_def)
qed

lemma env_nocwd_fields [simp]:
  "write_header env_nocwd = Written"
  "spawn env_nocwd = Inl (OSError ''No such file or directory'')"
  "time_int env_nocwd = 17" "getcwd env_nocwd = Inr ''/home''"
  "write_header env_badcmd = Written"
  "spawn env_badcmd = Inr (ran ''/bin/sh: 1: frobnicate: not found\<newline>'' 127)"
  "write_footer env_badcmd = Written" "time_int env_badcmd = 17"
  "getcwd env_badcmd = Inr ''/home''"
  by (simp_all add: env_nocwd_def env_badcmd_def)

theorem startup_failure_witness:
  "write_header env_nocwd = Written
   \<and> spawn env_nocwd = Inl (OSError ''No such file or directory'')
   \<and> fst (execute_with_timeout env_nocwd ''ls'' ''/nowhere'' 8 world0)
       = Some (ExecError ''No such file or directory'')
   \<and> log_text (snd (execute_with_timeout env_nocwd ''ls'' ''/nowhere'' 8 world0)) ''safe_17.log''
       = Some (log_header env_nocwd ''ls'' ''/nowhere'' 8)
   \<and> events_since world0 (snd (execute_with_timeout env_nocwd ''ls'' ''/nowhere'' 8 world0))
       = [WriteFile ''safe_17.log'']
   \<and> execute_safe_command env_nocwd (call ''ls'' None None) world0
       = Inr (Some (ExecError ''No such file or directory''),
              open_w ''safe_17.log'' (log_header env_nocwd ''ls'' ''/home'' 8) 17 world0)
   \<and> fst (execute_with_timeout env_badcmd ''frobnicate'' ''.'' 8 world0)
       = Some (CompletedOk 127 ''/bin/sh: 1: frobnicate: not found\<newline>'' None)"
proof -
  have q: "classify_command ''ls'' = Quick" by code_simp
  show ?thesis
    using startup_failure [where env = env_nocwd and e = "OSError ''No such file or directory''"
        and c = "''ls''" and d = "''/nowhere''" and t = 8 and w = world0
        and a = "call ''ls'' None None" and here = "''/home''"]
      startup_failure [where env = env_badcmd
        and p = "ran ''/bin/sh: 1: frobnicate: not found\<newline>'' 127"
        and out = "''/bin/sh: 1: frobnicate: not found\<newline>''" and rc = 127
        and c = "''frobnicate''" and d = "''.''" and t = 8 and w = world0]
      q
    by (simp add: effective_timeout_def)
qed

text \<open>
  C5 as stated fails for a bad command. The shell is spawned, prints that it has not
  found \<open>frobnicate\<close> and exits with code 127: the call returns the success report with
  exit code 127, and the log is completed with the summary.
\<close>

theorem startup_failure_counterexample:
  "execute_safe_command env_badcmd (call ''frobnicate'' None None) world0
     = Inr (execute_with_timeout env_badcmd ''frobnicate'' ''/home'' 8 world0)
   \<and> fst (execute_with_timeout env_badcmd ''frobnicate'' ''/home'' 8 world0)
     = Some (CompletedOk 127 ''/bin/sh: 1: frobnicate: not found\<newline>'' None)
   \<and> log_text (snd (execute_with_timeout env_badcmd ''frobnicate'' ''/home'' 8 world0))
       ''safe_17.log''
     = Some (log_header env_badcmd ''frobnicate'' ''/home'' 8
             @ log_summary env_badcmd ''/bin/sh: 1: frobnicate: not found\<newline>'' 127)"
proof -
  have q: "classify_command ''frobnicate'' = Quick" by code_simp
  have "execute_safe_command env_badcmd (call ''frobnicate'' None None) world0
     = Inr (execute_with_timeout env_badcmd ''frobnicate'' ''/home'' 8 world0)"
    using routed_bounded [of env_badcmd "''/home''" "call ''frobnicate'' None None" world0] q
    by (simp add: effective_timeout_def)
  then show ?thesis
    using bounded_report [of env_badcmd "''frobnicate''" "''/home''" 8 world0]
      bounded_log_text [of env_badcmd "''frobnicate''" "''/home''" 8 world0]
    by (simp add: written_part_def closing_text_def)
qed

section \<open>Status reader\<close>

lemma for_each_map:
  assumes "\<forall>x \<in> set xs. body x = Inr (g x)"
  shows "for_each body xs = Inr (map g xs)"
  using assms by (induction xs) simp_all












section \<open>Context reader\<close>

lemma slice_from_tail:
  assumes "0 < n" and "n < int (length xs)"
  shows "slice_from (- n) xs = drop (length xs - nat n) xs"
proof -
  have "nat (int (length xs) - n) = length xs - nat n"
    using assms by linarith
  then show ?thesis using assms by (simp add: slice_from_def Let_def max_def)
qed

text \<open>
  For a line count of at least one the context block is as C7 says: the last \<open>lines\<close>
  lines with the note when the log has more lines, the whole text without note otherwise.
\<close>

lemma context_of_positive:
  assumes "0 < lines" and "read_error f = None"
  shows "context_of lines (name, f) =
         Inr (if lines < int (length (str_splitlines (read_text (content f))))
              then \<lparr>cb_name = name, cb_note = Some lines,
                    cb_text = str_join ''\<newline>''
                      (drop (length (str_splitlines (read_text (content f))) - nat lines)
                         (str_splitlines (read_text (content f))))\<rparr>
              else \<lparr>cb_name = name, cb_note = None, cb_text = read_text (content f)\<rparr>)"
  using assms by (simp add: context_of_def Let_def slice_from_tail)

lemma get_context_positive:
  assumes "0 < n"
    and "\<forall>lf \<in> set (take 3 (sorted_newest (glob [] ''.log'' w))). read_error (snd lf) = None"
  shows "\<exists>blocks. get_context (Some n) w = Inr blocks \<and> length blocks \<le> 3
           \<and> map cb_name blocks = map fst (take 3 (sorted_newest (glob [] ''.log'' w)))"
proof -
  let ?g = "\<lambda>lf. if n < int (length (str_splitlines (read_text (content (snd lf)))))
              then \<lparr>cb_name = fst lf, cb_note = Some n,
                    cb_text = str_join ''\<newline>''
                      (drop (length (str_splitlines (read_text (content (snd lf)))) - nat n)
                         (str_splitlines (read_text (content (snd lf)))))\<rparr>
              else \<lparr>cb_name = fst lf, cb_note = None, cb_text = read_text (content (snd lf))\<rparr>"
  have "\<forall>lf \<in> set (take 3 (sorted_newest (glob [] ''.log'' w))). context_of n lf = Inr (?g lf)"
  proof
    fix lf assume "lf \<in> set (take 3 (sorted_newest (glob [] ''.log'' w)))"
    with assms(2) have r: "read_error (snd lf) = None" by blast
    show "context_of n lf = Inr (?g lf)"
      using context_of_positive [OF assms(1) r, of "fst lf"] by simp
  qed
  then have "get_context (Some n) w
             = Inr (map ?g (take 3 (sorted_newest (glob [] ''.log'' w))))"
    by (simp add: get_context_def for_each_map)
  then show ?thesis by (simp add: comp_def)
qed

text \<open>
  C7 at a line count of 0. The log has three lines; the block carries the note
  "showing last 0 lines" and, under it, all three lines: \<open>content_lines[-0:]\<close> is the
  whole list.
\<close>

theorem context_zero_lines:
  "str_splitlines ''a\<newline>b\<newline>c\<newline>'' = [''a'', ''b'', ''c'']
   \<and> get_context (Some 0) world_ctx =
       Inr [\<lparr>cb_name = ''safe_17.log'', cb_note = Some 0, cb_text = ''a\<newline>b\<newline>c''\<rparr>]"
  by code_simp

section \<open>Exceptions that leave the readers\<close>

text \<open>
  The execute operation raises only when \<open>os.getcwd()\<close> does: the executors turn the
  exceptions of their file accesses and of the spawn into reports.
\<close>

lemma execute_raises_only_getcwd:
  "handle_call_tool env ''run_command_safe'' a w = Inl e \<longleftrightarrow> getcwd env = Inl e"
  by (auto simp: handle_call_tool_def execute_safe_command_def Let_def
        split: sum.splits prod.splits)

text \<open>
  C8 at two directories. A marker file that exists but cannot be opened makes
  \<open>check_status\<close> raise, and a log whose bytes do not decode makes \<open>check_status\<close> and
  \<open>get_context\<close> raise: neither function has a handler around its reads, so the
  exception leaves the operation, and \<open>handle_call_tool\<close> with it, instead of becoming a
  textual result. The execute operation raises as well when the server's own directory
  is gone: \<open>os.getcwd()\<close> is evaluated outside any handler.
\<close>

theorem readers_raise:
  "check_status env0 None world_locked = Inl (OSError ''Permission denied'')
   \<and> check_status env0 None world_binary
       = Inl (ValueError ''utf-8 codec cannot decode byte 0xff'')
   \<and> get_context None world_binary
       = Inl (ValueError ''utf-8 codec cannot decode byte 0xff'')
   \<and> handle_call_tool env0 ''check_command_status'' no_arguments world_locked
       = Inl (OSError ''Permission denied'')
   \<and> handle_call_tool env0 ''get_terminal_context'' no_arguments world_binary
       = Inl (ValueError ''utf-8 codec cannot decode byte 0xff'')
   \<and> handle_call_tool env_gone ''run_command_safe'' no_arguments world0
       = Inl (OSError ''No such file or directory'')"
  by code_simp


section \<open>The log of an invocation\<close>

lemma bounded_other_files:
  assumes "write_header env = Written" and "q \<noteq> safe_log env"
  shows "map_of (files (snd (execute_with_timeout env c d t w))) q = map_of (files w) q"
  using assms(2)
  by (auto simp: bounded_world [OF assms(1)] Let_def map_of_open_w map_of_open_a
        split: sum.split io.split)

lemma bounded_events_shape:
  assumes "write_header env = Written"
  shows "\<exists>rest. events_since w (snd (execute_with_timeout env c d t w))
                  = WriteFile (safe_log env) # rest
               \<and> set rest \<subseteq> {SpawnShell c d, Kill, Wait, AppendFile (safe_log env)}"
  by (auto simp: bounded_events [OF assms] split: sum.split)

lemma background_world:
  "snd (execute_background env c d w) =
     (let w1 = emit [SpawnShell (bg_shell_line env c) d]
                 (w\<lparr>files := (case bg_log env of
                                None \<Rightarrow> files w
                              | Some f \<Rightarrow> AList.update (bg_name env c @ ''.log'') f (files w))\<rparr>)
      in case bg_spawn env of
           LaunchRaises e \<Rightarrow> w
         | LaunchHangs \<Rightarrow> w1
         | LaunchPrinted out \<Rightarrow>
             (case write_pid env of
                OpenRaises e \<Rightarrow> w1
              | r \<Rightarrow> open_w (bg_name env c @ ''.pid'')
                       (written_part r (str_strip out)) (time_int env) w1))"
  by (auto simp: execute_background_def bg_name_def bg_shell_line_def Let_def write_block_def
        written_part_def
        split: launch.split option.split io.split)

lemma background_events:
  "events_since w (snd (execute_background env c d w)) =
     (case bg_spawn env of
        LaunchRaises e \<Rightarrow> []
      | LaunchHangs \<Rightarrow> [SpawnShell (bg_shell_line env c) d]
      | LaunchPrinted out \<Rightarrow>
          SpawnShell (bg_shell_line env c) d
          # (case write_pid env of
               OpenRaises e \<Rightarrow> []
             | r \<Rightarrow> [WriteFile (bg_name env c @ ''.pid'')]))"
  by (auto simp: background_world Let_def events_since_def split: launch.split io.split)

lemma background_log:
  assumes "bg_spawn env = LaunchPrinted out"
  shows "map_of (files (snd (execute_background env c d w))) (bg_name env c @ ''.log'') =
         (case bg_log env of
            None \<Rightarrow> map_of (files w) (bg_name env c @ ''.log'')
          | Some f \<Rightarrow> Some f)"
  using assms
  by (auto simp: background_world Let_def map_of_open_w update_conv'
        split: option.split io.split)

text \<open>
  C9, as the code has it. A bounded invocation whose header has been written writes one
  file, its log: the first thing it does is to create the log with the header, before
  the process is spawned; whatever follows is spawning, killing, waiting and appending to
  that log; no other file is changed. After a failure to spawn the log holds the header
  only. When \<open>communicate()\<close> has returned, or the process was killed and the wait for it
  has returned, the log holds the header followed by what the closing append has written:
  the summary with exit code and completion time in the first case, the timeout marker
  in the second, when the append succeeds; a leading part of that text when it raises
  after opening the log; nothing when the log cannot be opened. While the wait for a
  killed process has not returned the log holds the header only. A background invocation
  never opens its log for writing: the launcher's only write is the marker file, and
  once the launching shell has ended the log is the file that the shell's redirection
  has left.
\<close>

theorem log_lifecycle:
  "(write_header env = Written \<longrightarrow>
      (\<exists>rest. events_since w (snd (execute_with_timeout env c d t w))
                = WriteFile (safe_log env) # rest
             \<and> set rest \<subseteq> {SpawnShell c d, Kill, Wait, AppendFile (safe_log env)})
      \<and> (\<forall>q. q \<noteq> safe_log env \<longrightarrow>
             map_of (files (snd (execute_with_timeout env c d t w))) q = map_of (files w) q)
      \<and> (spawn env = Inl e \<longrightarrow>
           log_text (snd (execute_with_timeout env c d t w)) (safe_log env)
             = Some (log_header env c d t))
      \<and> (spawn env = Inr p \<and> (communicate p \<noteq> None \<or> reaped p) \<longrightarrow>
           log_text (snd (execute_with_timeout env c d t w)) (safe_log env)
             = Some (log_header env c d t
                     @ written_part (write_footer env) (closing_text env t p)))
      \<and> (spawn env = Inr p \<and> communicate p = Some (out, rc) \<and> write_footer env = Written \<longrightarrow>
           log_text (snd (execute_with_timeout env c d t w)) (safe_log env)
             = Some (log_header env c d t @ log_summary env out rc))
      \<and> (spawn env = Inr p \<and> communicate p = None \<and> reaped p \<and> write_footer env = Written \<longrightarrow>
           log_text (snd (execute_with_timeout env c d t w)) (safe_log env)
             = Some (log_header env c d t @ log_timeout env t))
      \<and> (spawn env = Inr p \<and> communicate p = None \<and> \<not> reaped p \<longrightarrow>
           log_text (snd (execute_with_timeout env c d t w)) (safe_log env)
             = Some (log_header env c d t)))
   \<and> set (events_since w (snd (execute_background env c d w)))
        \<subseteq> {SpawnShell (bg_shell_line env c) d, WriteFile (bg_name env c @ ''.pid'')}
   \<and> (bg_spawn env = LaunchPrinted pid_out \<longrightarrow>
        map_of (files (snd (execute_background env c d w))) (bg_name env c @ ''.log'')
          = (case bg_log env of
               None \<Rightarrow> map_of (files w) (bg_name env c @ ''.log'')
             | Some f \<Rightarrow> Some f))"
proof (intro conjI impI)
  assume h: "write_header env = Written"
  show "\<exists>rest. events_since w (snd (execute_with_timeout env c d t w))
                = WriteFile (safe_log env) # rest
             \<and> set rest \<subseteq> {SpawnShell c d, Kill, Wait, AppendFile (safe_log env)}"
    by (rule bounded_events_shape [OF h])
  show "\<forall>q. q \<noteq> safe_log env \<longrightarrow>
          map_of (files (snd (execute_with_timeout env c d t w))) q = map_of (files w) q"
    by (simp add: bounded_other_files [OF h])
next
  assume "write_header env = Written" and "spawn env = Inl e"
  then show "log_text (snd (execute_with_timeout env c d t w)) (safe_log env)
             = Some (log_header env c d t)"
    by (simp add: bounded_log_text)
next
  assume "write_header env = Written"
    and "spawn env = Inr p \<and> (communicate p \<noteq> None \<or> reaped p)"
  then show "log_text (snd (execute_with_timeout env c d t w)) (safe_log env)
             = Some (log_header env c d t
                     @ written_part (write_footer env) (closing_text env t p))"
    by (auto simp: bounded_log_text)
next
  assume "write_header env = Written"
    and "spawn env = Inr p \<and> communicate p = Some (out, rc) \<and> write_footer env = Written"
  then show "log_text (snd (execute_with_timeout env c d t w)) (safe_log env)
             = Some (log_header env c d t @ log_summary env out rc)"
    by (simp add: bounded_log_text written_part_def closing_text_def)
next
  assume "write_header env = Written"
    and "spawn env = Inr p \<and> communicate p = None \<and> reaped p \<and> write_footer env = Written"
  then show "log_text (snd (execute_with_timeout env c d t w)) (safe_log env)
             = Some (log_header env c d t @ log_timeout env t)"
    by (simp add: bounded_log_text written_part_def closing_text_def)
next
  assume "write_header env = Written"
    and "spawn env = Inr p \<and> communicate p = None \<and> \<not> reaped p"
  then show "log_text (snd (execute_with_timeout env c d t w)) (safe_log env)
             = Some (log_header env c d t)"
    by (simp add: bounded_log_text)
next
  show "set (events_since w (snd (execute_background env c d w)))
        \<subseteq> {SpawnShell (bg_shell_line env c) d, WriteFile (bg_name env c @ ''.pid'')}"
    by (auto simp: background_events split: launch.split io.split)
next
  assume "bg_spawn env = LaunchPrinted pid_out"
  then show "map_of (files (snd (execute_background env c d w))) (bg_name env c @ ''.log'')
          = (case bg_log env of
               None \<Rightarrow> map_of (files w) (bg_name env c @ ''.log'')
             | Some f \<Rightarrow> Some f)"
    by (rule background_log)
qed

lemma bg_name_make: "bg_name env0 ''make'' = ''bg_17_make''"
  by code_simp

theorem log_lifecycle_witness:
  "write_header env0 = Written \<and> spawn env0 = Inr (ran ''hello\<newline>'' 0)
   \<and> write_footer env0 = Written \<and> bg_spawn env0 = LaunchPrinted ''4242\<newline>''
   \<and> log_text (snd (execute_with_timeout env0 ''echo hello'' ''.'' 5 world0)) ''safe_17.log''
       = Some (log_header env0 ''echo hello'' ''.'' 5 @ log_summary env0 ''hello\<newline>'' 0)
   \<and> map_of (files (snd (execute_with_timeout env0 ''echo hello'' ''.'' 5 world0))) ''other.log''
       = map_of (files world0) ''other.log''
   \<and> map_of (files (snd (execute_background env0 ''make'' ''.'' world0))) ''bg_17_make.log''
       = Some (plain_file ''ok\<newline>'' 17)
   \<and> log_text (snd (execute_with_timeout env_sleep ''sleep 10'' ''.'' 1 world0)) ''safe_17.log''
       = Some (log_header env_sleep ''sleep 10'' ''.'' 1 @ log_timeout env_sleep 1)
   \<and> log_text (snd (execute_with_timeout env_sleep_full ''sleep 10'' ''.'' 1 world0))
         ''safe_17.log''
       = Some (log_header env_sleep_full ''sleep 10'' ''.'' 1
               @ take 10 (log_timeout env_sleep_full 1))
   \<and> log_text (snd (execute_with_timeout env_endless ''yes'' ''.'' 1 world0)) ''safe_17.log''
       = Some (log_header env_endless ''yes'' ''.'' 1)
   \<and> log_text (snd (execute_with_timeout env_nocwd ''ls'' ''/nowhere'' 8 world0)) ''safe_17.log''
       = Some (log_header env_nocwd ''ls'' ''/nowhere'' 8)"
  using log_lifecycle [where env = env0 and w = world0 and c = "''echo hello''" and d = "''.''"
      and t = 5 and p = "ran ''hello\<newline>'' 0" and out = "''hello\<newline>''" and rc = 0]
    log_lifecycle [where env = env0 and w = world0 and c = "''make''" and d = "''.''"
      and pid_out = "''4242\<newline>''"]
    log_lifecycle [where env = env_sleep and w = world0 and c = "''sleep 10''" and d = "''.''"
      and t = 1 and p = slow]
    log_lifecycle [where env = env_sleep_full and w = world0 and c = "''sleep 10''"
      and d = "''.''" and t = 1 and p = slow]
    log_lifecycle [where env = env_endless and w = world0 and c = "''yes''" and d = "''.''"
      and t = 1 and p = endless]
    log_lifecycle [where env = env_nocwd and w = world0 and c = "''ls''" and d = "''/nowhere''"
      and t = 8 and e = "OSError ''No such file or directory''"]
  by (simp add: bg_name_make written_part_def closing_text_def)

text \<open>
  C9 as stated fails for background invocations. The command \<open>make\<close> is launched in
  the background, prints \<open>ok\<close> and exits; its process is gone, so the invocation is in a
  terminal state and is reported as completed; its log holds the output of the command
  and nothing else, neither an exit code nor a timeout marker.
\<close>

theorem log_lifecycle_counterexample:
  "execute_safe_command env0 (call ''make'' None None) world0
     = Inr (execute_background env0 ''make'' ''/home'' world0)
   \<and> fst (execute_background env0 ''make'' ''/home'' world0)
     = Some (BgStarted ''4242'' ''bg_17_make.log'' (Some ''ok\<newline>''))
   \<and> check_status env0 None (snd (execute_background env0 ''make'' ''/home'' world0))
     = Inr (StatusReport
         [\<lparr>se_command = ''bg_17_make'', se_status = Completed, se_log = ''bg_17_make.log'',
            se_recent = Some ''ok\<newline>''\<rparr>])
   \<and> log_text (snd (execute_background env0 ''make'' ''/home'' world0)) ''bg_17_make.log''
     = Some ''ok\<newline>''
   \<and> \<not> str_in ''Exit Code'' ''ok\<newline>'' \<and> \<not> str_in ''TIMEOUT'' ''ok\<newline>''"
  by code_simp

end
